theory Spec2Isabelle
  imports Complex_Main
begin

section \<open>Data model (types.ts)\<close>

text \<open>
  JavaScript numbers are modelled as exact reals (the specification speaks of real
  prices), so rounding and \<open>NaN\<close> are outside the model: the theorems state the
  operations and branches the code performs, and none states how computed averages
  are ordered relative to their inputs. The period of a moving
  average is a whole number, as at every call site (12, 144, 169, 576, 676), and so
  is a timestamp.
  The field \<open>open\<close> of a candle is written \<open>open_c\<close>, the fields \<open>type\<close> and
  \<open>timestamp\<close> of a signal \<open>sig_type\<close> and \<open>sig_timestamp\<close>.
\<close>

record CandleData =
  timestamp :: int
  open_c :: real
  high :: real
  low :: real
  close :: real
  volume :: real

record TechnicalIndicators =
  ema12 :: real
  ema144 :: real
  ema169 :: real
  ema576 :: real
  ema676 :: real

datatype signal_type = SigLong | SigShort | SigNone

record VegasTunnelSignal =
  sig_type :: signal_type
  price :: real
  sig_timestamp :: int
  indicators :: TechnicalIndicators

section \<open>calculateEMA\<close>

text \<open>
  The first loop, \<open>for (i = 0; i < Math.min(period, prices.length); i++) sum += prices[i]\<close>.
  The bound is the value of \<open>Math.min(period, prices.length)\<close>.
\<close>

function sum_loop :: "real list \<Rightarrow> int \<Rightarrow> nat \<Rightarrow> real \<Rightarrow> real" where
  "sum_loop prices bound i sum_v =
     (if int i < bound then sum_loop prices bound (i + 1) (sum_v + prices ! i) else sum_v)"
  by pat_completeness auto
termination
  by (relation "measure (\<lambda>(prices, bound, i, sum_v). nat bound - i)") auto

declare sum_loop.simps [simp del]

text \<open>
  The second loop, \<open>for (i = 1; i < prices.length; i++) ema[i] = ...\<close>. The array
  \<open>ema\<close> has exactly \<open>i\<close> elements when the body runs, so the assignment to \<open>ema[i]\<close>
  appends one element.
\<close>

function ema_loop :: "real list \<Rightarrow> real \<Rightarrow> nat \<Rightarrow> real list \<Rightarrow> real list" where
  "ema_loop prices multiplier i ema =
     (if i < length prices
      then ema_loop prices multiplier (i + 1)
             (ema @ [(prices ! i * multiplier) + (ema ! (i - 1) * (1 - multiplier))])
      else ema)"
  by pat_completeness auto
termination
  by (relation "measure (\<lambda>(prices, multiplier, i, ema). length prices - i)") auto

declare ema_loop.simps [simp del]

definition calculateEMA :: "real list \<Rightarrow> int \<Rightarrow> real list" where
  "calculateEMA prices period =
     (if length prices = 0 \<or> period \<le> 0 then []
      else
        let multiplier = 2 / (real_of_int period + 1);
            sum_v = sum_loop prices (min period (int (length prices))) 0 0;
            ema = [sum_v / real_of_int (min period (int (length prices)))]
        in ema_loop prices multiplier 1 ema)"

section \<open>calculateIndicators\<close>

definition calculateIndicators :: "CandleData list \<Rightarrow> TechnicalIndicators option" where
  "calculateIndicators candles =
     (if length candles < 676 then None
      else
        let closes = map close candles;
            lastIndex = length closes - 1
        in Some \<lparr> ema12 = calculateEMA closes 12 ! lastIndex,
                  ema144 = calculateEMA closes 144 ! lastIndex,
                  ema169 = calculateEMA closes 169 ! lastIndex,
                  ema576 = calculateEMA closes 576 ! lastIndex,
                  ema676 = calculateEMA closes 676 ! lastIndex \<rparr>)"

section \<open>VegasTunnel.analyzeSignal\<close>

text \<open>
  The two private fields of the class: \<open>state\<close> (0: idle, 1: waiting for the
  confirming close) and \<open>longShort\<close> (0: no direction, 1: bullish order, 2: bearish
  order). A call takes the object and returns it updated, with the signal or
  \<open>None\<close> for JavaScript's \<open>null\<close>.
\<close>

record VegasTunnel =
  state :: nat
  longShort :: nat

definition new_VegasTunnel :: VegasTunnel where
  "new_VegasTunnel = \<lparr> state = 0, longShort = 0 \<rparr>"

definition analyzeSignal ::
  "VegasTunnel \<Rightarrow> CandleData list \<Rightarrow> VegasTunnel \<times> VegasTunnelSignal option" where
  "analyzeSignal this candles =
     (if length candles < 676 then (this, None)
      else case calculateIndicators candles of
        None \<Rightarrow> (this, None)
      | Some ind \<Rightarrow>
          let currentCandle = candles ! (length candles - 1);
              e12 = ema12 ind; e144 = ema144 ind; e169 = ema169 ind;
              e576 = ema576 ind; e676 = ema676 ind;
              this1 =
                (if e12 > e144 \<and> e144 > e169 \<and> e169 > e576 \<and> e576 > e676
                 then this\<lparr>longShort := 1\<rparr>
                 else if e12 < e144 \<and> e144 < e169 \<and> e169 < e576 \<and> e576 < e676
                 then this\<lparr>longShort := 2\<rparr>
                 else this\<lparr>longShort := 0\<rparr>);
              (this2, signalType) =
                (if longShort this1 = 0 then (this1\<lparr>state := 0\<rparr>, SigNone)
                 else if longShort this1 = 1 then
                   (if state this1 = 0 then
                      (if low currentCandle \<le> e144 \<and> close currentCandle \<ge> e12
                       then (this1\<lparr>state := 0\<rparr>, SigLong)
                       else if low currentCandle \<le> e144
                       then (this1\<lparr>state := 1\<rparr>, SigNone)
                       else (this1\<lparr>state := 0\<rparr>, SigNone))
                    else if state this1 = 1 then
                      (if close currentCandle \<ge> e12
                       then (this1\<lparr>state := 0\<rparr>, SigLong)
                       else if e12 \<le> e144
                       then (this1\<lparr>state := 0\<rparr>, SigNone)
                       else (this1, SigNone))
                    else (this1, SigNone))
                 else if longShort this1 = 2 then
                   (if state this1 = 0 then
                      (if high currentCandle \<ge> e144 \<and> close currentCandle \<le> e12
                       then (this1\<lparr>state := 0\<rparr>, SigShort)
                       else if high currentCandle \<ge> e144
                       then (this1\<lparr>state := 1\<rparr>, SigNone)
                       else (this1\<lparr>state := 0\<rparr>, SigNone))
                    else if state this1 = 1 then
                      (if close currentCandle \<le> e12
                       then (this1\<lparr>state := 0\<rparr>, SigShort)
                       else if e12 \<ge> e144
                       then (this1\<lparr>state := 0\<rparr>, SigNone)
                       else (this1, SigNone))
                    else (this1, SigNone))
                 else (this1, SigNone))
          in (this2, Some \<lparr> sig_type = signalType,
                             price = close currentCandle,
                             sig_timestamp = timestamp currentCandle,
                             indicators = ind \<rparr>))"

section \<open>calculateFibonacciTargets\<close>

datatype direction = DirLong | DirShort

record targets =
  target1 :: real
  target2 :: real
  target3 :: real

text \<open>
  An optional argument is \<open>None\<close> when it is left out (\<open>undefined\<close>). The test
  \<open>swingHigh && swingLow\<close> is JavaScript's truthiness: a number is truthy when it
  is not zero.
\<close>

definition truthy :: "real option \<Rightarrow> bool" where
  "truthy x = (case x of None \<Rightarrow> False | Some v \<Rightarrow> v \<noteq> 0)"

definition calculateFibonacciTargets ::
  "real \<Rightarrow> direction \<Rightarrow> real option \<Rightarrow> real option \<Rightarrow> targets" where
  "calculateFibonacciTargets entryPrice dir swingHigh swingLow =
     (let defaultPercent = 5 / 100 in
      if dir = DirLong then
        let baseRange =
              (if truthy swingHigh \<and> truthy swingLow
               then \<bar>the swingHigh - the swingLow\<bar>
               else entryPrice * defaultPercent)
        in \<lparr> target1 = entryPrice + (baseRange * 1),
             target2 = entryPrice + (baseRange * (1618 / 1000)),
             target3 = entryPrice + (baseRange * 2) \<rparr>
      else
        let baseRange =
              (if truthy swingHigh \<and> truthy swingLow
               then \<bar>the swingHigh - the swingLow\<bar>
               else entryPrice * defaultPercent)
        in \<lparr> target1 = entryPrice - (baseRange * 1),
             target2 = entryPrice - (baseRange * (1618 / 1000)),
             target3 = entryPrice - (baseRange * 2) \<rparr>)"

section \<open>Sample candle series\<close>

text \<open>
  Concrete inputs on which the theorems below are instantiated. \<open>bar t l h c\<close> is
  a candle at time \<open>t\<close> with low \<open>l\<close>, high \<open>h\<close> and close \<open>c\<close>. Each series
  starts with 676 equal candles, so that every average is still at that price when
  the last one or two candles arrive.
\<close>

definition bar :: "int \<Rightarrow> real \<Rightarrow> real \<Rightarrow> real \<Rightarrow> CandleData" where
  "bar t l h c = \<lparr> timestamp = t, open_c = l, high = h, low = l, close = c, volume = 1 \<rparr>"

definition flat :: "CandleData list" where
  "flat = replicate 676 (bar 0 1 1 1)"

definition rally :: "CandleData list" where
  "rally = replicate 676 (bar 0 1 1 1) @ [bar 1 1 2 2]"

definition rally_dip :: "CandleData list" where
  "rally_dip = replicate 676 (bar 0 1 1 1) @ [bar 1 1 2 2, bar 2 1 1 1]"

definition slump :: "CandleData list" where
  "slump = replicate 676 (bar 0 2 2 2) @ [bar 1 1 1 1]"

definition slump_bounce :: "CandleData list" where
  "slump_bounce = replicate 676 (bar 0 2 2 2) @ [bar 1 1 1 1, bar 2 2 2 2]"

section \<open>Properties of the two loops\<close>

lemma sum_loop_eq:
  "sum_loop prices bound i s = s + (\<Sum>j = i..<nat bound. prices ! j)"
proof (induction prices bound i s rule: sum_loop.induct)
  case (1 prices bound i s)
  show ?case
  proof (cases "int i < bound")
    case True
    then have lt: "i < nat bound" by linarith
    have "sum_loop prices bound i s = sum_loop prices bound (i + 1) (s + prices ! i)"
      using True by (subst sum_loop.simps) simp
    also have "\<dots> = (s + prices ! i) + (\<Sum>j = i + 1..<nat bound. prices ! j)"
      using "1.IH" [OF True] .
    also have "\<dots> = s + (\<Sum>j = i..<nat bound. prices ! j)"
      using lt by (simp add: sum.atLeast_Suc_lessThan)
    finally show ?thesis .
  next
    case False
    then have "nat bound \<le> i" by linarith
    with False show ?thesis by (subst sum_loop.simps) simp
  qed
qed

lemma sum_loop_take:
  assumes "bound \<le> int (length prices)"
  shows "sum_loop prices bound 0 0 = sum_list (take (nat bound) prices)"
proof -
  have len: "length (take (nat bound) prices) = nat bound"
    using assms by simp
  have "sum_list (take (nat bound) prices) = (\<Sum>j = 0..<nat bound. take (nat bound) prices ! j)"
    using sum_list_sum_nth [of "take (nat bound) prices"] len by simp
  also have "\<dots> = (\<Sum>j = 0..<nat bound. prices ! j)"
    by (rule sum.cong) simp_all
  finally show ?thesis by (simp add: sum_loop_eq)
qed

lemma length_ema_loop:
  "length (ema_loop prices m i ema) = length ema + (length prices - i)"
proof (induction prices m i ema rule: ema_loop.induct)
  case (1 prices m i ema)
  show ?case
  proof (cases "i < length prices")
    case True
    then show ?thesis using "1.IH" [OF True] by (subst ema_loop.simps) simp
  next
    case False
    then show ?thesis by (subst ema_loop.simps) simp
  qed
qed

lemma ema_loop_nth_old:
  "j < length ema \<Longrightarrow> ema_loop prices m i ema ! j = ema ! j"
proof (induction prices m i ema rule: ema_loop.induct)
  case (1 prices m i ema)
  show ?case
  proof (cases "i < length prices")
    case True
    then show ?thesis using "1.IH" [OF True] "1.prems"
      by (subst ema_loop.simps) (simp add: nth_append)
  next
    case False
    then show ?thesis by (subst ema_loop.simps) simp
  qed
qed

lemma ema_loop_step:
  "length ema = i \<Longrightarrow> 1 \<le> i \<Longrightarrow> i \<le> j \<Longrightarrow> j < length prices \<Longrightarrow>
   ema_loop prices m i ema ! j =
     (prices ! j * m) + (ema_loop prices m i ema ! (j - 1) * (1 - m))"
proof (induction prices m i ema rule: ema_loop.induct)
  case (1 prices m i ema)
  let ?ema' = "ema @ [(prices ! i * m) + (ema ! (i - 1) * (1 - m))]"
  have lt: "i < length prices" using "1.prems" by simp
  have unf: "ema_loop prices m i ema = ema_loop prices m (i + 1) ?ema'"
    using lt by (subst ema_loop.simps) simp
  show ?case
  proof (cases "j = i")
    case True
    have a: "ema_loop prices m (i + 1) ?ema' ! i = ?ema' ! i"
      using "1.prems" by (intro ema_loop_nth_old) simp
    have b: "ema_loop prices m (i + 1) ?ema' ! (i - 1) = ?ema' ! (i - 1)"
      using "1.prems" by (intro ema_loop_nth_old) simp
    show ?thesis using "1.prems" True a b
      by (simp add: unf nth_append)
  next
    case False
    then have "i + 1 \<le> j" using "1.prems" by simp
    then show ?thesis
      using "1.IH" [OF lt] "1.prems" by (simp add: unf)
  qed
qed

section \<open>Properties of calculateEMA\<close>

lemma length_calculateEMA:
  "prices \<noteq> [] \<Longrightarrow> 0 < period \<Longrightarrow> length (calculateEMA prices period) = length prices"
  by (cases prices) (simp_all add: calculateEMA_def Let_def length_ema_loop)

lemma calculateEMA_seed:
  assumes "prices \<noteq> []" "0 < period"
  shows "calculateEMA prices period ! 0 =
           sum_list (take (nat (min period (int (length prices)))) prices)
             / real_of_int (min period (int (length prices)))"
proof -
  have "min period (int (length prices)) \<le> int (length prices)" by simp
  from sum_loop_take [OF this] assms show ?thesis
    by (simp add: calculateEMA_def Let_def ema_loop_nth_old)
qed

lemma calculateEMA_step:
  assumes "0 < period" "1 \<le> i" "i < length prices"
  shows "calculateEMA prices period ! i =
           prices ! i * (2 / (real_of_int period + 1))
             + calculateEMA prices period ! (i - 1) * (1 - 2 / (real_of_int period + 1))"
proof -
  from assms have ne: "length prices \<noteq> 0" by auto
  show ?thesis
    using assms ne ema_loop_step [of "[sum_loop prices (min period (int (length prices))) 0 0
        / real_of_int (min period (int (length prices)))]" 1 i prices "2 / (real_of_int period + 1)"]
    by (simp add: calculateEMA_def Let_def)
qed

lemma calculateEMA_const_prefix:
  assumes "0 < period" "nat period \<le> n" "j < n"
  shows "calculateEMA (replicate n c @ rest) period ! j = c"
  using assms(3)
proof (induction j)
  case 0
  have ne: "replicate n c @ rest \<noteq> []" using 0 by auto
  have m: "min period (int (length (replicate n c @ rest))) = period"
    using assms by simp
  have t: "take (nat period) (replicate n c @ rest) = replicate (nat period) c"
    using assms by (simp add: min_def)
  have "calculateEMA (replicate n c @ rest) period ! 0 =
          sum_list (replicate (nat period) c) / real_of_int period"
    unfolding calculateEMA_seed [OF ne assms(1)] m t ..
  also have "\<dots> = c"
    using assms(1) by (simp add: sum_list_replicate)
  finally show ?case .
next
  case (Suc j)
  then have "j < n" by simp
  with Suc.IH have ih: "calculateEMA (replicate n c @ rest) period ! j = c" by simp
  have "calculateEMA (replicate n c @ rest) period ! Suc j =
        (replicate n c @ rest) ! Suc j * (2 / (real_of_int period + 1))
          + calculateEMA (replicate n c @ rest) period ! (Suc j - 1) * (1 - 2 / (real_of_int period + 1))"
    using Suc.prems assms(1) by (intro calculateEMA_step) simp_all
  also have "\<dots> = c * (2 / (real_of_int period + 1)) + c * (1 - 2 / (real_of_int period + 1))"
    using Suc.prems ih by (simp add: nth_append)
  also have "\<dots> = c" by (simp add: algebra_simps)
  finally show ?case .
qed

lemma calculateEMA_const_then1:
  assumes "0 < period" "nat period \<le> n" "0 < n"
  shows "calculateEMA (replicate n c @ x # rest) period ! n =
           x * (2 / (real_of_int period + 1)) + c * (1 - 2 / (real_of_int period + 1))"
proof -
  have "calculateEMA (replicate n c @ x # rest) period ! (n - 1) = c"
    using assms by (intro calculateEMA_const_prefix) simp_all
  then show ?thesis
    using assms calculateEMA_step [of period n "replicate n c @ x # rest"]
    by (simp add: nth_append)
qed

lemma calculateEMA_const_then2:
  assumes "0 < period" "nat period \<le> n" "0 < n"
  shows "calculateEMA (replicate n c @ x # y # rest) period ! (n + 1) =
           y * (2 / (real_of_int period + 1))
             + (x * (2 / (real_of_int period + 1)) + c * (1 - 2 / (real_of_int period + 1)))
                 * (1 - 2 / (real_of_int period + 1))"
  using assms calculateEMA_step [of period "n + 1" "replicate n c @ x # y # rest"]
    calculateEMA_const_then1 [OF assms, of c x "y # rest"]
  by (simp add: nth_append)

text \<open>The model runs: two small evaluations.\<close>

lemma calculateEMA_example: "calculateEMA [1, 2, 3, 4] 2 = [3/2, 11/6, 47/18, 191/54]"
  by code_simp



section \<open>Claims about calculateEMA\<close>

text \<open>
  C8. For a degenerate input, a period \<open>P \<le> 0\<close> or an empty price sequence,
  \<open>calculateEMA\<close> returns the empty sequence; the function is total, so there is no
  failure.
\<close>

theorem calculateEMA_degenerate_empty:
  "prices = [] \<or> period \<le> 0 \<Longrightarrow> calculateEMA prices period = []"
  by (auto simp: calculateEMA_def)

theorem calculateEMA_degenerate_empty_witness:
  "(([1, 2, 3] :: real list) = [] \<or> (0 :: int) \<le> 0) \<and> calculateEMA [1, 2, 3] 0 = []
   \<and> calculateEMA [] 12 = []"
  using calculateEMA_degenerate_empty [of "[1, 2, 3]" 0] calculateEMA_degenerate_empty [of "[]" 12]
  by simp

text \<open>
  C4. For a price sequence of length \<open>N \<ge> 1\<close> and a period \<open>P > 0\<close>,
  \<open>calculateEMA\<close> returns exactly \<open>N\<close> values; the value at index 0 is the
  arithmetic mean of the first \<open>min(P, N)\<close> prices, and the value at every index
  \<open>i \<ge> 1\<close> is \<open>price[i] * k + ema[i-1] * (1 - k)\<close> with \<open>k = 2 / (P + 1)\<close>.
\<close>

theorem calculateEMA_contract:
  assumes "1 \<le> length prices" and "0 < period"
  shows "length (calculateEMA prices period) = length prices
       \<and> calculateEMA prices period ! 0 =
           sum_list (take (nat (min period (int (length prices)))) prices)
             / real_of_int (min period (int (length prices)))
       \<and> (\<forall>i. 1 \<le> i \<and> i < length prices \<longrightarrow>
            calculateEMA prices period ! i =
              prices ! i * (2 / (real_of_int period + 1))
                + calculateEMA prices period ! (i - 1) * (1 - 2 / (real_of_int period + 1)))"
proof -
  from assms(1) have ne: "prices \<noteq> []" by auto
  show ?thesis
    using length_calculateEMA [OF ne assms(2)] calculateEMA_seed [OF ne assms(2)]
      calculateEMA_step [OF assms(2)]
    by blast
qed

theorem calculateEMA_contract_witness:
  "1 \<le> length ([1, 2, 3, 4] :: real list) \<and> (0 :: int) < 2
   \<and> length (calculateEMA [1, 2, 3, 4] 2) = 4
   \<and> calculateEMA [1, 2, 3, 4] 2 ! 0 = (1 + 2) / 2
   \<and> calculateEMA [1, 2, 3, 4] 2 ! 2 = 3 * (2 / 3) + calculateEMA [1, 2, 3, 4] 2 ! 1 * (1 - 2 / 3)"
proof -
  have h: "1 \<le> length ([1, 2, 3, 4] :: real list)" "(0 :: int) < 2" by simp_all
  have i: "(1 :: nat) \<le> 2 \<and> 2 < length ([1, 2, 3, 4] :: real list)" by simp
  from calculateEMA_contract [OF h] have
    l: "length (calculateEMA [1, 2, 3, 4] 2) = length ([1, 2, 3, 4] :: real list)" and
    s: "calculateEMA [1, 2, 3, 4] 2 ! 0 =
          sum_list (take (nat (min 2 (int (length ([1, 2, 3, 4] :: real list))))) [1, 2, 3, 4])
            / real_of_int (min 2 (int (length ([1, 2, 3, 4] :: real list))))" and
    r: "\<forall>i. 1 \<le> i \<and> i < length ([1, 2, 3, 4] :: real list) \<longrightarrow>
          calculateEMA [1, 2, 3, 4] 2 ! i =
            [1, 2, 3, 4] ! i * (2 / (real_of_int 2 + 1))
              + calculateEMA [1, 2, 3, 4] 2 ! (i - 1) * (1 - 2 / (real_of_int 2 + 1))"
    by blast+
  from r i have r2: "calculateEMA [1, 2, 3, 4] 2 ! 2 =
            [1, 2, 3, 4] ! 2 * (2 / (real_of_int 2 + 1))
              + calculateEMA [1, 2, 3, 4] 2 ! (2 - 1) * (1 - 2 / (real_of_int 2 + 1))"
    by blast
  have t: "take 2 ([1, 2, 3, 4] :: real list) = [1, 2]" by (simp add: numeral_2_eq_2)
  show ?thesis using l s r2 by (simp add: t)
qed




section \<open>Properties of calculateIndicators\<close>

lemma calculateIndicators_Some_length:
  "calculateIndicators candles = Some ind \<Longrightarrow> 676 \<le> length candles"
  by (simp add: calculateIndicators_def split: if_splits)

lemma calculateIndicators_const:
  assumes "676 \<le> n"
  shows "calculateIndicators (replicate n a) =
           Some \<lparr> ema12 = close a, ema144 = close a, ema169 = close a,
                  ema576 = close a, ema676 = close a \<rparr>"
proof -
  have e: "calculateEMA (replicate n (close a)) p ! (n - Suc 0) = close a"
    if "0 < p" "nat p \<le> n" for p
    using calculateEMA_const_prefix [OF that, of "n - 1" "close a" "[]"] assms by simp
  show ?thesis
    using assms by (simp add: calculateIndicators_def Let_def e)
qed

lemma calculateIndicators_const_then1:
  assumes "676 \<le> n"
  shows "calculateIndicators (replicate n a @ [b]) =
           Some \<lparr> ema12 = close b * (2 / 13) + close a * (11 / 13),
                  ema144 = close b * (2 / 145) + close a * (143 / 145),
                  ema169 = close b * (2 / 170) + close a * (168 / 170),
                  ema576 = close b * (2 / 577) + close a * (575 / 577),
                  ema676 = close b * (2 / 677) + close a * (675 / 677) \<rparr>"
  using assms by (simp add: calculateIndicators_def Let_def calculateEMA_const_then1)

lemma calculateIndicators_const_then2:
  assumes "676 \<le> n"
  shows "calculateIndicators (replicate n a @ [b, c]) =
           Some \<lparr> ema12 = close c * (2 / 13) + (close b * (2 / 13) + close a * (11 / 13)) * (11 / 13),
                  ema144 = close c * (2 / 145) + (close b * (2 / 145) + close a * (143 / 145)) * (143 / 145),
                  ema169 = close c * (2 / 170) + (close b * (2 / 170) + close a * (168 / 170)) * (168 / 170),
                  ema576 = close c * (2 / 577) + (close b * (2 / 577) + close a * (575 / 577)) * (575 / 577),
                  ema676 = close c * (2 / 677) + (close b * (2 / 677) + close a * (675 / 677)) * (675 / 677) \<rparr>"
proof -
  have e: "calculateEMA (replicate n (close a) @ [close b, close c]) p ! Suc n =
           close c * (2 / (real_of_int p + 1))
             + (close b * (2 / (real_of_int p + 1)) + close a * (1 - 2 / (real_of_int p + 1)))
                 * (1 - 2 / (real_of_int p + 1))"
    if "0 < p" "nat p \<le> n" for p
    using calculateEMA_const_then2 [OF that, of "close a" "close b" "close c" "[]"] assms by simp
  show ?thesis
    using assms by (simp add: calculateIndicators_def Let_def e)
qed

section \<open>The sample series\<close>

lemma flat_facts:
  "676 \<le> length flat"
  "flat ! (length flat - 1) = bar 0 1 1 1"
  "calculateIndicators flat =
     Some \<lparr> ema12 = 1, ema144 = 1, ema169 = 1, ema576 = 1, ema676 = 1 \<rparr>"
  by (simp_all add: flat_def calculateIndicators_const) (simp add: bar_def)

lemma rally_facts:
  "676 \<le> length rally"
  "rally ! (length rally - 1) = bar 1 1 2 2"
  "calculateIndicators rally =
     Some \<lparr> ema12 = 15 / 13, ema144 = 147 / 145, ema169 = 86 / 85,
            ema576 = 579 / 577, ema676 = 679 / 677 \<rparr>"
  by (simp_all add: rally_def calculateIndicators_const_then1 nth_append) (simp add: bar_def)

lemma rally_dip_facts:
  "676 \<le> length rally_dip"
  "rally_dip ! (length rally_dip - 1) = bar 2 1 1 1"
  "calculateIndicators rally_dip =
     Some \<lparr> ema12 = 191 / 169, ema144 = 21311 / 21025, ema169 = 7309 / 7225,
            ema576 = 334079 / 332929, ema676 = 459679 / 458329 \<rparr>"
  by (simp_all add: rally_dip_def calculateIndicators_const_then2 nth_append) (simp add: bar_def)

lemma slump_facts:
  "676 \<le> length slump"
  "slump ! (length slump - 1) = bar 1 1 1 1"
  "calculateIndicators slump =
     Some \<lparr> ema12 = 24 / 13, ema144 = 288 / 145, ema169 = 169 / 85,
            ema576 = 1152 / 577, ema676 = 1352 / 677 \<rparr>"
  by (simp_all add: slump_def calculateIndicators_const_then1 nth_append) (simp add: bar_def)

lemma slump_bounce_facts:
  "676 \<le> length slump_bounce"
  "slump_bounce ! (length slump_bounce - 1) = bar 2 2 2 2"
  "calculateIndicators slump_bounce =
     Some \<lparr> ema12 = 316 / 169, ema144 = 41764 / 21025, ema169 = 14366 / 7225,
            ema576 = 664708 / 332929, ema676 = 915308 / 458329 \<rparr>"
  by (simp_all add: slump_bounce_def calculateIndicators_const_then2 nth_append) (simp add: bar_def)

lemma bar_sel [simp]:
  "timestamp (bar t l h c) = t" "low (bar t l h c) = l" "high (bar t l h c) = h"
  "close (bar t l h c) = c"
  by (simp_all add: bar_def)

section \<open>Claims about calculateIndicators and VegasTunnel.analyzeSignal\<close>

text \<open>
  C5. For a candle series with fewer than 676 candles, whatever the candles hold,
  \<open>calculateIndicators\<close> yields no snapshot (\<open>null\<close>) and \<open>analyzeSignal\<close> returns no
  signal (\<open>null\<close>); the detector's fields are left as they were.
\<close>

theorem insufficient_data:
  "length candles < 676 \<Longrightarrow>
     calculateIndicators candles = None \<and> analyzeSignal this candles = (this, None)"
  by (simp add: calculateIndicators_def analyzeSignal_def)

theorem insufficient_data_witness:
  "length (replicate 675 (bar 0 1 2 2)) < 676
   \<and> calculateIndicators (replicate 675 (bar 0 1 2 2)) = None
   \<and> analyzeSignal \<lparr> state = 1, longShort = 1 \<rparr> (replicate 675 (bar 0 1 2 2))
       = (\<lparr> state = 1, longShort = 1 \<rparr>, None)"
proof -
  have h: "length (replicate 675 (bar 0 1 2 2)) < 676" by simp
  from insufficient_data [OF h, of "\<lparr> state = 1, longShort = 1 \<rparr>"] h show ?thesis by simp
qed

text \<open>
  C1. For a candle series of length at least 676 whose five averages satisfy
  \<open>ema12 > ema144 > ema169 > ema576 > ema676\<close>: when the detector is not armed
  (\<open>state = 0\<close>; the stored alignment is overwritten, so this covers the state
  \<open>{none, false}\<close>) and the newest candle has \<open>low \<le> ema144\<close> and
  \<open>close \<ge> ema12\<close>, one call of \<open>analyzeSignal\<close> emits \<open>long\<close> and leaves the
  detector at \<open>{bullish, armed: false}\<close>.
\<close>

theorem one_shot_long:
  assumes "676 \<le> length candles"
    and "calculateIndicators candles = Some ind"
    and "ema12 ind > ema144 ind \<and> ema144 ind > ema169 ind
         \<and> ema169 ind > ema576 ind \<and> ema576 ind > ema676 ind"
    and "state this = 0"
    and "low (candles ! (length candles - 1)) \<le> ema144 ind"
    and "close (candles ! (length candles - 1)) \<ge> ema12 ind"
  shows "analyzeSignal this candles =
           (\<lparr> state = 0, longShort = 1 \<rparr>,
            Some \<lparr> sig_type = SigLong,
                   price = close (candles ! (length candles - 1)),
                   sig_timestamp = timestamp (candles ! (length candles - 1)),
                   indicators = ind \<rparr>)"
  using assms by (simp add: analyzeSignal_def Let_def)

theorem one_shot_long_witness:
  "676 \<le> length rally
   \<and> analyzeSignal \<lparr> state = 0, longShort = 0 \<rparr> rally
       = (\<lparr> state = 0, longShort = 1 \<rparr>,
          Some \<lparr> sig_type = SigLong, price = 2, sig_timestamp = 1,
                 indicators = \<lparr> ema12 = 15 / 13, ema144 = 147 / 145, ema169 = 86 / 85,
                                ema576 = 579 / 577, ema676 = 679 / 677 \<rparr> \<rparr>)"
  using one_shot_long [OF rally_facts(1) rally_facts(3), of "\<lparr> state = 0, longShort = 0 \<rparr>",
      unfolded rally_facts(2)] rally_facts(1)
  by simp

text \<open>
  C3. For every detector state, armed or not, and every candle series of length at
  least 676 whose five averages are neither in strictly descending order
  (\<open>ema12 > ... > ema676\<close>, bullish) nor in strictly ascending order (bearish),
  \<open>analyzeSignal\<close> emits \<open>none\<close> and resets the detector to
  \<open>{alignment: none, armed: false}\<close>.
\<close>

theorem no_alignment_resets:
  assumes "676 \<le> length candles"
    and "calculateIndicators candles = Some ind"
    and "\<not> (ema12 ind > ema144 ind \<and> ema144 ind > ema169 ind
            \<and> ema169 ind > ema576 ind \<and> ema576 ind > ema676 ind)"
    and "\<not> (ema12 ind < ema144 ind \<and> ema144 ind < ema169 ind
            \<and> ema169 ind < ema576 ind \<and> ema576 ind < ema676 ind)"
  shows "analyzeSignal this candles =
           (\<lparr> state = 0, longShort = 0 \<rparr>,
            Some \<lparr> sig_type = SigNone,
                   price = close (candles ! (length candles - 1)),
                   sig_timestamp = timestamp (candles ! (length candles - 1)),
                   indicators = ind \<rparr>)"
proof -
  have l: "\<not> length candles < 676" using assms(1) by simp
  have "analyzeSignal this candles =
          ((this\<lparr>longShort := 0\<rparr>)\<lparr>state := 0\<rparr>,
           Some \<lparr> sig_type = SigNone,
                  price = close (candles ! (length candles - 1)),
                  sig_timestamp = timestamp (candles ! (length candles - 1)),
                  indicators = ind \<rparr>)"
    unfolding analyzeSignal_def Let_def
    by (simp only: l assms(2) assms(3) assms(4) if_False option.case) simp
  then show ?thesis by (cases this) simp
qed

theorem no_alignment_resets_witness:
  "676 \<le> length flat
   \<and> analyzeSignal \<lparr> state = 1, longShort = 1 \<rparr> flat
       = (\<lparr> state = 0, longShort = 0 \<rparr>,
          Some \<lparr> sig_type = SigNone, price = 1, sig_timestamp = 0,
                 indicators = \<lparr> ema12 = 1, ema144 = 1, ema169 = 1, ema576 = 1, ema676 = 1 \<rparr> \<rparr>)"
  using no_alignment_resets [OF flat_facts(1) flat_facts(3), of "\<lparr> state = 1, longShort = 1 \<rparr>",
      unfolded flat_facts(2)] flat_facts(1)
  by simp

text \<open>
  C2. Two consecutive calls that both classify the bullish order: the first, from an
  unarmed detector, with a candle that has \<open>low \<le> ema144\<close> and \<open>close < ema12\<close>,
  emits \<open>none\<close> and leaves \<open>{bullish, armed: true}\<close>; the second, with a candle that
  has \<open>close \<ge> ema12\<close>, emits \<open>long\<close> and leaves \<open>{bullish, armed: false}\<close>.
\<close>

theorem retest_then_confirm_long:
  assumes "calculateIndicators candles1 = Some ind1"
    and "ema12 ind1 > ema144 ind1 \<and> ema144 ind1 > ema169 ind1
         \<and> ema169 ind1 > ema576 ind1 \<and> ema576 ind1 > ema676 ind1"
    and "state this = 0"
    and "low (candles1 ! (length candles1 - 1)) \<le> ema144 ind1"
    and "close (candles1 ! (length candles1 - 1)) < ema12 ind1"
    and "calculateIndicators candles2 = Some ind2"
    and "ema12 ind2 > ema144 ind2 \<and> ema144 ind2 > ema169 ind2
         \<and> ema169 ind2 > ema576 ind2 \<and> ema576 ind2 > ema676 ind2"
    and "close (candles2 ! (length candles2 - 1)) \<ge> ema12 ind2"
  shows "analyzeSignal this candles1 =
           (\<lparr> state = 1, longShort = 1 \<rparr>,
            Some \<lparr> sig_type = SigNone,
                   price = close (candles1 ! (length candles1 - 1)),
                   sig_timestamp = timestamp (candles1 ! (length candles1 - 1)),
                   indicators = ind1 \<rparr>)
       \<and> analyzeSignal (fst (analyzeSignal this candles1)) candles2 =
           (\<lparr> state = 0, longShort = 1 \<rparr>,
            Some \<lparr> sig_type = SigLong,
                   price = close (candles2 ! (length candles2 - 1)),
                   sig_timestamp = timestamp (candles2 ! (length candles2 - 1)),
                   indicators = ind2 \<rparr>)"
proof -
  have l1: "\<not> length candles1 < 676" and l2: "\<not> length candles2 < 676"
    using calculateIndicators_Some_length assms(1,6) by fastforce+
  have first: "analyzeSignal this candles1 =
           (\<lparr> state = 1, longShort = 1 \<rparr>,
            Some \<lparr> sig_type = SigNone,
                   price = close (candles1 ! (length candles1 - 1)),
                   sig_timestamp = timestamp (candles1 ! (length candles1 - 1)),
                   indicators = ind1 \<rparr>)"
    using assms(1-5) l1 by (simp add: analyzeSignal_def Let_def)
  have second: "analyzeSignal \<lparr> state = 1, longShort = 1 \<rparr> candles2 =
           (\<lparr> state = 0, longShort = 1 \<rparr>,
            Some \<lparr> sig_type = SigLong,
                   price = close (candles2 ! (length candles2 - 1)),
                   sig_timestamp = timestamp (candles2 ! (length candles2 - 1)),
                   indicators = ind2 \<rparr>)"
    using assms(6-8) l2 by (simp add: analyzeSignal_def Let_def)
  show ?thesis using first second by simp
qed

theorem retest_then_confirm_long_witness:
  "analyzeSignal \<lparr> state = 0, longShort = 0 \<rparr> rally_dip =
     (\<lparr> state = 1, longShort = 1 \<rparr>,
      Some \<lparr> sig_type = SigNone, price = 1, sig_timestamp = 2,
             indicators = \<lparr> ema12 = 191 / 169, ema144 = 21311 / 21025, ema169 = 7309 / 7225,
                            ema576 = 334079 / 332929, ema676 = 459679 / 458329 \<rparr> \<rparr>)
   \<and> analyzeSignal (fst (analyzeSignal \<lparr> state = 0, longShort = 0 \<rparr> rally_dip)) rally =
     (\<lparr> state = 0, longShort = 1 \<rparr>,
      Some \<lparr> sig_type = SigLong, price = 2, sig_timestamp = 1,
             indicators = \<lparr> ema12 = 15 / 13, ema144 = 147 / 145, ema169 = 86 / 85,
                            ema576 = 579 / 577, ema676 = 679 / 677 \<rparr> \<rparr>)"
  using retest_then_confirm_long [OF rally_dip_facts(3) _ _ _ _ rally_facts(3),
      of "\<lparr> state = 0, longShort = 0 \<rparr>", unfolded rally_dip_facts(2) rally_facts(2)]
  by (simp cong: conj_cong)

text \<open>
  C9. The armed flag is not cleared when the classification flips from bullish
  straight to bearish. After a first call that classifies bullish and arms the
  detector (unarmed before, \<open>low \<le> ema144\<close>, \<open>close < ema12\<close>), a second call that
  classifies bearish with \<open>close \<le> ema12\<close> emits \<open>short\<close> at once, whatever the
  candle's high is; in particular when \<open>high < ema144\<close>, where the same call from an
  unarmed detector emits \<open>none\<close>.
\<close>

theorem armed_flag_carries_over:
  assumes "calculateIndicators candles1 = Some ind1"
    and "ema12 ind1 > ema144 ind1 \<and> ema144 ind1 > ema169 ind1
         \<and> ema169 ind1 > ema576 ind1 \<and> ema576 ind1 > ema676 ind1"
    and "state this = 0"
    and "low (candles1 ! (length candles1 - 1)) \<le> ema144 ind1"
    and "close (candles1 ! (length candles1 - 1)) < ema12 ind1"
    and "calculateIndicators candles2 = Some ind2"
    and "ema12 ind2 < ema144 ind2 \<and> ema144 ind2 < ema169 ind2
         \<and> ema169 ind2 < ema576 ind2 \<and> ema576 ind2 < ema676 ind2"
    and "close (candles2 ! (length candles2 - 1)) \<le> ema12 ind2"
  shows "fst (analyzeSignal this candles1) = \<lparr> state = 1, longShort = 1 \<rparr>
       \<and> analyzeSignal (fst (analyzeSignal this candles1)) candles2 =
           (\<lparr> state = 0, longShort = 2 \<rparr>,
            Some \<lparr> sig_type = SigShort,
                   price = close (candles2 ! (length candles2 - 1)),
                   sig_timestamp = timestamp (candles2 ! (length candles2 - 1)),
                   indicators = ind2 \<rparr>)
       \<and> (high (candles2 ! (length candles2 - 1)) < ema144 ind2 \<longrightarrow>
            analyzeSignal \<lparr> state = 0, longShort = 1 \<rparr> candles2 =
              (\<lparr> state = 0, longShort = 2 \<rparr>,
               Some \<lparr> sig_type = SigNone,
                      price = close (candles2 ! (length candles2 - 1)),
                      sig_timestamp = timestamp (candles2 ! (length candles2 - 1)),
                      indicators = ind2 \<rparr>))"
proof -
  have l1: "\<not> length candles1 < 676" and l2: "\<not> length candles2 < 676"
    using calculateIndicators_Some_length assms(1,6) by fastforce+
  have first: "fst (analyzeSignal this candles1) = \<lparr> state = 1, longShort = 1 \<rparr>"
    using assms(1-5) l1 by (simp add: analyzeSignal_def Let_def)
  have second: "analyzeSignal \<lparr> state = 1, longShort = 1 \<rparr> candles2 =
           (\<lparr> state = 0, longShort = 2 \<rparr>,
            Some \<lparr> sig_type = SigShort,
                   price = close (candles2 ! (length candles2 - 1)),
                   sig_timestamp = timestamp (candles2 ! (length candles2 - 1)),
                   indicators = ind2 \<rparr>)"
    using assms(6-8) l2 by (simp add: analyzeSignal_def Let_def)
  have unarmed: "analyzeSignal \<lparr> state = 0, longShort = 1 \<rparr> candles2 =
              (\<lparr> state = 0, longShort = 2 \<rparr>,
               Some \<lparr> sig_type = SigNone,
                      price = close (candles2 ! (length candles2 - 1)),
                      sig_timestamp = timestamp (candles2 ! (length candles2 - 1)),
                      indicators = ind2 \<rparr>)"
    if "high (candles2 ! (length candles2 - 1)) < ema144 ind2"
    using assms(6-8) l2 that by (simp add: analyzeSignal_def Let_def)
  show ?thesis unfolding first using second unarmed by simp
qed

theorem armed_flag_carries_over_witness:
  "high (bar 1 1 1 1) < (288 / 145 :: real)
   \<and> fst (analyzeSignal \<lparr> state = 0, longShort = 0 \<rparr> rally_dip) = \<lparr> state = 1, longShort = 1 \<rparr>
   \<and> analyzeSignal (fst (analyzeSignal \<lparr> state = 0, longShort = 0 \<rparr> rally_dip)) slump =
       (\<lparr> state = 0, longShort = 2 \<rparr>,
        Some \<lparr> sig_type = SigShort, price = 1, sig_timestamp = 1,
               indicators = \<lparr> ema12 = 24 / 13, ema144 = 288 / 145, ema169 = 169 / 85,
                              ema576 = 1152 / 577, ema676 = 1352 / 677 \<rparr> \<rparr>)
   \<and> analyzeSignal \<lparr> state = 0, longShort = 1 \<rparr> slump =
       (\<lparr> state = 0, longShort = 2 \<rparr>,
        Some \<lparr> sig_type = SigNone, price = 1, sig_timestamp = 1,
               indicators = \<lparr> ema12 = 24 / 13, ema144 = 288 / 145, ema169 = 169 / 85,
                              ema576 = 1152 / 577, ema676 = 1352 / 677 \<rparr> \<rparr>)"
  using armed_flag_carries_over [OF rally_dip_facts(3) _ _ _ _ slump_facts(3),
      of "\<lparr> state = 0, longShort = 0 \<rparr>", unfolded rally_dip_facts(2) slump_facts(2)]
  by (simp cong: conj_cong)

text \<open>
  C10. Once the bullish order is classified, \<open>ema12 > ema144\<close> holds, so the test
  \<open>ema12 \<le> ema144\<close> of the armed branch is never true there: a call from an armed
  detector that classifies bullish with \<open>close < ema12\<close> emits \<open>none\<close> and stays
  armed. Symmetrically, the test \<open>ema12 \<ge> ema144\<close> is never true under the bearish
  order: a call from an armed detector that classifies bearish with
  \<open>close > ema12\<close> emits \<open>none\<close> and stays armed.
\<close>

theorem armed_invalidation_unreachable:
  assumes "state this = 1"
    and "calculateIndicators candlesL = Some indL"
    and "ema12 indL > ema144 indL \<and> ema144 indL > ema169 indL
         \<and> ema169 indL > ema576 indL \<and> ema576 indL > ema676 indL"
    and "close (candlesL ! (length candlesL - 1)) < ema12 indL"
    and "calculateIndicators candlesS = Some indS"
    and "ema12 indS < ema144 indS \<and> ema144 indS < ema169 indS
         \<and> ema169 indS < ema576 indS \<and> ema576 indS < ema676 indS"
    and "close (candlesS ! (length candlesS - 1)) > ema12 indS"
  shows "\<not> ema12 indL \<le> ema144 indL
       \<and> analyzeSignal this candlesL =
           (\<lparr> state = 1, longShort = 1 \<rparr>,
            Some \<lparr> sig_type = SigNone,
                   price = close (candlesL ! (length candlesL - 1)),
                   sig_timestamp = timestamp (candlesL ! (length candlesL - 1)),
                   indicators = indL \<rparr>)
       \<and> \<not> ema12 indS \<ge> ema144 indS
       \<and> analyzeSignal this candlesS =
           (\<lparr> state = 1, longShort = 2 \<rparr>,
            Some \<lparr> sig_type = SigNone,
                   price = close (candlesS ! (length candlesS - 1)),
                   sig_timestamp = timestamp (candlesS ! (length candlesS - 1)),
                   indicators = indS \<rparr>)"
proof -
  have l1: "\<not> length candlesL < 676" and l2: "\<not> length candlesS < 676"
    using calculateIndicators_Some_length assms(2,5) by fastforce+
  have long: "analyzeSignal this candlesL =
           (\<lparr> state = 1, longShort = 1 \<rparr>,
            Some \<lparr> sig_type = SigNone,
                   price = close (candlesL ! (length candlesL - 1)),
                   sig_timestamp = timestamp (candlesL ! (length candlesL - 1)),
                   indicators = indL \<rparr>)"
    using assms(1-4) l1 by (cases this) (simp add: analyzeSignal_def Let_def)
  have short: "analyzeSignal this candlesS =
           (\<lparr> state = 1, longShort = 2 \<rparr>,
            Some \<lparr> sig_type = SigNone,
                   price = close (candlesS ! (length candlesS - 1)),
                   sig_timestamp = timestamp (candlesS ! (length candlesS - 1)),
                   indicators = indS \<rparr>)"
    using assms(1,5-7) l2 by (cases this) (simp add: analyzeSignal_def Let_def)
  from assms(3,6) long short show ?thesis by simp
qed

theorem armed_invalidation_unreachable_witness:
  "analyzeSignal \<lparr> state = 1, longShort = 1 \<rparr> rally_dip =
       (\<lparr> state = 1, longShort = 1 \<rparr>,
        Some \<lparr> sig_type = SigNone, price = 1, sig_timestamp = 2,
               indicators = \<lparr> ema12 = 191 / 169, ema144 = 21311 / 21025, ema169 = 7309 / 7225,
                              ema576 = 334079 / 332929, ema676 = 459679 / 458329 \<rparr> \<rparr>)
   \<and> analyzeSignal \<lparr> state = 1, longShort = 1 \<rparr> slump_bounce =
       (\<lparr> state = 1, longShort = 2 \<rparr>,
        Some \<lparr> sig_type = SigNone, price = 2, sig_timestamp = 2,
               indicators = \<lparr> ema12 = 316 / 169, ema144 = 41764 / 21025, ema169 = 14366 / 7225,
                              ema576 = 664708 / 332929, ema676 = 915308 / 458329 \<rparr> \<rparr>)"
  using armed_invalidation_unreachable [OF _ rally_dip_facts(3) _ _ slump_bounce_facts(3),
      of "\<lparr> state = 1, longShort = 1 \<rparr>", unfolded rally_dip_facts(2) slump_bounce_facts(2)]
  by simp

section \<open>Claims about calculateFibonacciTargets\<close>

text \<open>
  With both swing bounds given and different from zero the range is
  \<open>|swingHigh - swingLow|\<close>; with a bound left out it is 5% of the entry price.
\<close>

lemma calculateFibonacciTargets_nonzero_bounds:
  assumes "h \<noteq> 0" and "l \<noteq> 0"
  shows "calculateFibonacciTargets e DirLong (Some h) (Some l) =
           \<lparr> target1 = e + \<bar>h - l\<bar> * 1, target2 = e + \<bar>h - l\<bar> * (1618 / 1000),
             target3 = e + \<bar>h - l\<bar> * 2 \<rparr>"
    and "calculateFibonacciTargets e DirShort (Some h) (Some l) =
           \<lparr> target1 = e - \<bar>h - l\<bar> * 1, target2 = e - \<bar>h - l\<bar> * (1618 / 1000),
             target3 = e - \<bar>h - l\<bar> * 2 \<rparr>"
  using assms by (simp_all add: calculateFibonacciTargets_def truthy_def Let_def)

lemma calculateFibonacciTargets_missing_bound:
  assumes "sh = None \<or> sl = None"
  shows "calculateFibonacciTargets e DirLong sh sl =
           \<lparr> target1 = e + e * (5 / 100) * 1, target2 = e + e * (5 / 100) * (1618 / 1000),
             target3 = e + e * (5 / 100) * 2 \<rparr>"
    and "calculateFibonacciTargets e DirShort sh sl =
           \<lparr> target1 = e - e * (5 / 100) * 1, target2 = e - e * (5 / 100) * (1618 / 1000),
             target3 = e - e * (5 / 100) * 2 \<rparr>"
  using assms by (auto simp: calculateFibonacciTargets_def truthy_def Let_def)

text \<open>
  C6 says that the range is \<open>|swingHigh - swingLow|\<close> whenever both swing bounds are
  supplied. The code tests \<open>swingHigh && swingLow\<close>, which is false for a supplied
  bound of 0: with entry 100, direction \<open>long\<close>, swingHigh 110 and swingLow 0 the
  range is the default \<open>100 * 0.05 = 5\<close>, not \<open>|110 - 0| = 110\<close>, and the targets are
  105, 108.09 and 110 where the claim gives 210, 277.98 and 320.
\<close>

theorem zero_swing_bound_falls_back_to_default:
  "calculateFibonacciTargets 100 DirLong (Some 110) (Some 0) =
     \<lparr> target1 = 105, target2 = 10809 / 100, target3 = 110 \<rparr>
   \<and> target1 (calculateFibonacciTargets 100 DirLong (Some 110) (Some 0))
       \<noteq> 100 + \<bar>110 - 0\<bar> * 1"
  by (simp add: calculateFibonacciTargets_def truthy_def Let_def)

end
